theory Spec2Isabelle
  imports Main "HOL-Library.AList"
begin

section \<open>JavaScript string primitives used by the two handlers\<close>

text \<open>
  A JavaScript string is a sequence of 16-bit code units, here a list of numbers
  (a code unit is a number below 65536); \<open>js\<close> turns a literal into its code units.
  A value that may be \<open>undefined\<close> or \<open>null\<close> is a \<open>jsstring option\<close>; such a value is
  falsy when it is \<open>None\<close> or the empty string, which is what \<open>!target\<close>,
  \<open>cl && ...\<close>, \<open>!val\<close> and \<open>x || d\<close> test.
\<close>

type_synonym jsstring = "nat list"

definition js :: "string \<Rightarrow> jsstring" where
  "js s = map of_char s"

fun startsWith :: "jsstring \<Rightarrow> jsstring \<Rightarrow> bool" where
  "startsWith s [] = True"
| "startsWith [] (p # ps) = False"
| "startsWith (c # cs) (p # ps) = (c = p \<and> startsWith cs ps)"

definition endsWith :: "jsstring \<Rightarrow> jsstring \<Rightarrow> bool" where
  "endsWith s p = startsWith (rev s) (rev p)"

fun str_includes :: "jsstring \<Rightarrow> jsstring \<Rightarrow> bool" where
  "str_includes [] p = (p = [])"
| "str_includes (c # cs) p = (startsWith (c # cs) p \<or> str_includes cs p)"

definition or_default :: "jsstring option \<Rightarrow> jsstring \<Rightarrow> jsstring" where
  "or_default v d = (case v of None \<Rightarrow> d | Some s \<Rightarrow> if s = [] then d else s)"

text \<open>
  The regular expression \<open>/^(data:|mailto:|javascript:|#)/i\<close> of \<open>makeAbs\<close>. Under the
  \<open>i\<close> flag two code units match when their canonical (upper-case) forms agree, and a
  code unit outside ASCII never canonicalises to an ASCII one, so against the ASCII
  alternatives of this pattern only the letters \<open>a\<close> to \<open>z\<close> fold.
\<close>

definition canonicalize :: "nat \<Rightarrow> nat" where
  "canonicalize c = (if 97 \<le> c \<and> c \<le> 122 then c - 32 else c)"

fun matchesCI :: "jsstring \<Rightarrow> jsstring \<Rightarrow> bool" where
  "matchesCI [] s = True"
| "matchesCI (p # ps) [] = False"
| "matchesCI (p # ps) (c # cs) = (canonicalize p = canonicalize c \<and> matchesCI ps cs)"

definition skip_regex :: "jsstring \<Rightarrow> bool" where
  "skip_regex val =
     (matchesCI (js ''data:'') val \<or> matchesCI (js ''mailto:'') val \<or>
      matchesCI (js ''javascript:'') val \<or> matchesCI (js ''#'') val)"

text \<open>
  \<open>parseInt(s)\<close> without a radix: leading white space (the white space and line
  terminator code units of the language) is dropped, then an optional sign,
  then an optional \<open>0x\<close>/\<open>0X\<close> (which selects radix 16), then the longest run of digits of
  the radix; no digit gives \<open>NaN\<close>, here \<open>None\<close>. The result is kept as an exact integer:
  the handler only compares it with \<open>30 * 1024 * 1024\<close>, which a double represents
  exactly, and rounding to a double is monotone, so the comparison has the same outcome.
\<close>

definition isWhiteSpace :: "nat \<Rightarrow> bool" where
  "isWhiteSpace c =
     (c \<in> {9, 10, 11, 12, 13, 32, 160, 5760, 8232, 8233, 8239, 8287, 12288, 65279} \<or>
      (8192 \<le> c \<and> c \<le> 8202))"

definition digitVal :: "nat \<Rightarrow> nat option" where
  "digitVal c =
     (if 48 \<le> c \<and> c \<le> 57 then Some (c - 48)
      else if 97 \<le> c \<and> c \<le> 122 then Some (c - 87)
      else if 65 \<le> c \<and> c \<le> 90 then Some (c - 55)
      else None)"

definition radixDigit :: "nat \<Rightarrow> nat \<Rightarrow> bool" where
  "radixDigit R c = (case digitVal c of None \<Rightarrow> False | Some d \<Rightarrow> d < R)"

definition digitNat :: "nat \<Rightarrow> nat" where
  "digitNat c = (case digitVal c of None \<Rightarrow> 0 | Some d \<Rightarrow> d)"

definition parseInt :: "jsstring \<Rightarrow> int option" where
  "parseInt inputString =
     (let S = dropWhile isWhiteSpace inputString;
          sign = (if startsWith S (js ''-'') then - 1 else 1 :: int);
          S1 = (if startsWith S (js ''+'') \<or> startsWith S (js ''-'') then tl S else S);
          hex = (startsWith S1 (js ''0x'') \<or> startsWith S1 (js ''0X''));
          R = (if hex then 16 else 10 :: nat);
          S2 = (if hex then drop 2 S1 else S1);
          Z = takeWhile (radixDigit R) S2
      in if Z = [] then None
         else Some (sign * int (foldl (\<lambda>a c. a * R + digitNat c) 0 Z)))"

text \<open>\<open>p.split('/').pop()\<close>: what follows the last slash (all of \<open>p\<close> when it has none).\<close>

definition last_segment :: "jsstring \<Rightarrow> jsstring" where
  "last_segment p = rev (takeWhile (\<lambda>c. c \<noteq> of_char CHR ''/'') (rev p))"

section \<open>The outside world: URL class, HTTP client, HTML library\<close>

text \<open>
  The handlers call Node's \<open>URL\<close> class, \<open>node-fetch\<close>, \<open>cheerio\<close> and
  \<open>decodeURIComponent\<close>. None of them is code of this repository, so each is a field of
  an environment the handlers are given; a call that throws (or a promise that rejects)
  returns \<open>None\<close>. The query parameter \<open>req.query.url\<close> is a \<open>jsstring option\<close>:
  absent, or given once.
\<close>

record url =
  href :: jsstring
  protocol :: jsstring
  hostname :: jsstring
  pathname :: jsstring

record request =
  req_url :: jsstring
  req_method :: jsstring
  req_headers :: "(jsstring \<times> jsstring) list"
  req_redirect :: jsstring

text \<open>
  A response of the HTTP client: \<open>r.ok\<close>, the headers (\<open>headers.get\<close> reads them by
  lower-case name), \<open>await r.text()\<close>, whether \<open>r.body.getReader()\<close> and the
  \<open>ReadableStream\<close> built on it run without a throw (a body that is a Node stream has no
  \<open>getReader\<close>), whether \<open>r.body.pipe\<close> is a function, the bytes the body delivers,
  and \<open>await r.arrayBuffer()\<close>.
\<close>

record origin =
  origin_ok :: bool
  origin_headers :: "(jsstring \<times> jsstring) list"
  origin_text :: "jsstring option"
  origin_getReader :: bool
  origin_pipe :: bool
  origin_body :: jsstring
  origin_arrayBuffer :: "jsstring option"

definition headers_get :: "origin \<Rightarrow> jsstring \<Rightarrow> jsstring option" where
  "headers_get r name = map_of (origin_headers r) name"

text \<open>
  The parse tree of \<open>cheerio\<close>: an element has a tag name, its \<open>attribs\<close> object (an
  association list, in insertion order) and children; every other node (text, comment,
  doctype) carries only its data. A document is the list of its top-level nodes.
\<close>

datatype node =
    Element jsstring "(jsstring \<times> jsstring) list" "node list"
  | Text jsstring
  | Other jsstring

record env =
  url_parse :: "jsstring \<Rightarrow> url option"
  url_resolve :: "jsstring \<Rightarrow> url \<Rightarrow> jsstring option"
  fetch :: "request \<Rightarrow> origin option"
  cheerio_load :: "jsstring \<Rightarrow> node list"
  cheerio_html :: "node list \<Rightarrow> jsstring"
  decodeURIComponent :: "jsstring \<Rightarrow> jsstring option"

text \<open>
  What a handler leaves on \<open>res\<close>: the status (200 unless set), the headers it set, in
  order, and the body it sent.
\<close>

record response =
  status :: nat
  res_headers :: "(jsstring \<times> jsstring) list"
  res_body :: jsstring

definition send :: "nat \<Rightarrow> jsstring \<Rightarrow> response" where
  "send code msg = \<lparr>status = code, res_headers = [], res_body = msg\<rparr>"

text \<open>
  \<open>res.setHeader(name, value)\<close> and the headers of \<open>res.writeHead\<close>: Node refuses a
  value with a code unit other than a tab, \<open>0x20\<close> to \<open>0x7e\<close> or \<open>0x80\<close> to \<open>0xff\<close>, and
  throws (here \<open>None\<close>); otherwise the header is added. The handlers set each name once.
\<close>

definition valid_header_char :: "nat \<Rightarrow> bool" where
  "valid_header_char c = (c = 9 \<or> (32 \<le> c \<and> c \<le> 126) \<or> (128 \<le> c \<and> c \<le> 255))"

definition valid_header_value :: "jsstring \<Rightarrow> bool" where
  "valid_header_value v = list_all valid_header_char v"

definition setHeader :: "jsstring \<Rightarrow> jsstring \<Rightarrow> response \<Rightarrow> response option" where
  "setHeader name v res =
     (if valid_header_value v then Some (res\<lparr>res_headers := res_headers res @ [(name, v)]\<rparr>)
      else None)"

section \<open>The HTML rewriter of \<open>proxy.js\<close>\<close>

text \<open>
  One element of \<open>makeAbs\<close>'s \<open>each\<close> loop, on the element's \<open>attribs\<close>:
  \<open>val = $(el).attr(attr)\<close>; return when \<open>val\<close> is falsy or matches the regular
  expression; otherwise \<open>new URL(val, base).toString()\<close> is written back, unless it
  throws, which the \<open>catch\<close> ignores.
\<close>

definition rewrite_attr ::
  "env \<Rightarrow> url \<Rightarrow> jsstring \<Rightarrow> (jsstring \<times> jsstring) list \<Rightarrow> (jsstring \<times> jsstring) list" where
  "rewrite_attr env base attr attribs =
     (case map_of attribs attr of
        None \<Rightarrow> attribs
      | Some val \<Rightarrow>
          if val = [] then attribs
          else if skip_regex val then attribs
          else (case url_resolve env val base of
                  None \<Rightarrow> attribs
                | Some absolute \<Rightarrow> AList.update attr absolute attribs))"

text \<open>\<open>$(elAttr).each(f)\<close> for a tag selector: \<open>f\<close> runs on every element of that name.\<close>

fun each_tag ::
  "jsstring \<Rightarrow> ((jsstring \<times> jsstring) list \<Rightarrow> (jsstring \<times> jsstring) list) \<Rightarrow> node \<Rightarrow> node" where
  "each_tag sel f (Element t attribs cs) =
     Element t (if t = sel then f attribs else attribs) (map (each_tag sel f) cs)"
| "each_tag sel f (Text s) = Text s"
| "each_tag sel f (Other s) = Other s"

definition makeAbs :: "env \<Rightarrow> url \<Rightarrow> jsstring \<Rightarrow> jsstring \<Rightarrow> node list \<Rightarrow> node list" where
  "makeAbs env base elAttr attr doc = map (each_tag elAttr (rewrite_attr env base attr)) doc"

text \<open>The six calls of \<open>makeAbs\<close>, in the order of the source.\<close>

definition absolutize :: "env \<Rightarrow> url \<Rightarrow> node list \<Rightarrow> node list" where
  "absolutize env base doc =
     makeAbs env base (js ''source'') (js ''src'')
       (makeAbs env base (js ''video'') (js ''src'')
         (makeAbs env base (js ''link'') (js ''href'')
           (makeAbs env base (js ''script'') (js ''src'')
             (makeAbs env base (js ''img'') (js ''src'')
               (makeAbs env base (js ''a'') (js ''href'') doc)))))"

text \<open>
  The template literal \<open>injected\<close>: a line break, a \<open>script\<close> element and a line break
  followed by four spaces. The text of the script is given line by line; \<open>bs\<close> is the
  backslash that an escaped backslash leaves in the template literal.
\<close>

definition bs :: string where
  "bs = [CHR 0x5C]"

definition probe_lines :: "string list" where
  "probe_lines =
    [''(function(){'',
     ''  function findMedia(){'',
     ''    const list = [];'',
     ''    // video tags'',
     ''    document.querySelectorAll('video').forEach(v => {'',
     ''      try {'',
     ''        const src = v.currentSrc || v.src || (v.querySelector('source') && v.querySelector('source').src);'',
     ''        if (src && src.match(/'' @ bs @ ''.mp4('' @ bs @ ''?|$)/i)) list.push({url: src, title: (v.getAttribute('title')||document.title||'video')});'',
     ''      } catch(e){}'',
     ''    });'',
     ''    // anchors that link to mp4'',
     ''    document.querySelectorAll('a').forEach(a=>{'',
     ''      try {'',
     ''        const h = a.href;'',
     ''        if (h && h.match(/'' @ bs @ ''.mp4('' @ bs @ ''?|$)/i)) list.push({url: h, title: a.innerText.trim() || document.title});'',
     ''      } catch(e){}'',
     ''    });'',
     ''    // dedupe'',
     ''    const uniq = [];'',
     ''    const seen = new Set();'',
     ''    list.forEach(it=>{'',
     ''      if(!seen.has(it.url)){ seen.add(it.url); uniq.push(it); }'',
     ''    });'',
     ''    parent.postMessage({type:'foundMedia', items: uniq}, '*');'',
     ''  }'',
     [],
     ''  findMedia();'',
     ''  setTimeout(findMedia, 1500);'',
     ''  const obs = new MutationObserver(findMedia);'',
     ''  try { obs.observe(document.body || document.documentElement, {childList:true, subtree:true}); } catch(e){}'',
     ''})();'']"

definition probe_source :: jsstring where
  "probe_source = js (''\<newline>'' @ concat (map (\<lambda>l. l @ ''\<newline>'') probe_lines))"

definition probe_script :: node where
  "probe_script = Element (js ''script'') [] [Text probe_source]"

definition injected_nodes :: "node list" where
  "injected_nodes = [Text (js ''\<newline>''), probe_script, Text (js ''\<newline>    '')]"

text \<open>
  \<open>$(sel).append(content)\<close> for a tag selector: the nodes of the content become the last
  children of every element of that name; with no such element nothing happens.
\<close>

fun append_to :: "jsstring \<Rightarrow> node list \<Rightarrow> node \<Rightarrow> node" where
  "append_to sel content (Element t attribs cs) =
     Element t attribs (map (append_to sel content) cs @ (if t = sel then content else []))"
| "append_to sel content (Text s) = Text s"
| "append_to sel content (Other s) = Other s"

definition append_sel :: "jsstring \<Rightarrow> node list \<Rightarrow> node list \<Rightarrow> node list" where
  "append_sel sel content doc = map (append_to sel content) doc"

definition rewrite :: "env \<Rightarrow> url \<Rightarrow> node list \<Rightarrow> node list" where
  "rewrite env base doc = append_sel (js ''body'') injected_nodes (absolutize env base doc)"

section \<open>\<open>pages/api/proxy.js\<close>\<close>

definition proxy_forbidden :: "jsstring \<Rightarrow> bool" where
  "proxy_forbidden host =
     (host = (js ''localhost'') \<or> host = (js ''127.0.0.1'') \<or> startsWith host (js ''192.168.'') \<or>
      endsWith host (js ''.internal''))"

definition proxy_request :: "jsstring \<Rightarrow> request" where
  "proxy_request target =
     \<lparr>req_url = target, req_method = js ''GET'',
      req_headers = [(js ''User-Agent'', js ''Mozilla/5.0 (compatible; VercelProxy/1.0)'')],
      req_redirect = js ''follow''\<rparr>"

text \<open>
  The second \<open>try\<close> block once \<open>fetch\<close> has returned \<open>r\<close>. A throw (of \<open>r.text()\<close>, of
  \<open>setHeader\<close>, of \<open>new URL\<close>) reaches its \<open>catch\<close>, which sets status 500 on the response
  as it stands and sends its message.
\<close>

definition proxy_error :: "response \<Rightarrow> response" where
  "proxy_error res = res\<lparr>status := 500, res_body := js ''Proxy fetch error''\<rparr>"

definition proxy_respond :: "env \<Rightarrow> jsstring \<Rightarrow> origin \<Rightarrow> response" where
  "proxy_respond env target r =
     (let contentType = or_default (headers_get r (js ''content-type'')) [];
          res = \<lparr>status = 200, res_headers = [], res_body = []\<rparr> in
      case origin_text r of
        None \<Rightarrow> proxy_error res
      | Some txt \<Rightarrow>
          if \<not> str_includes contentType (js ''text/html'')
          then (case setHeader (js ''Location'') target (res\<lparr>status := 302\<rparr>) of
                  None \<Rightarrow> proxy_error (res\<lparr>status := 302\<rparr>)
                | Some res' \<Rightarrow> res')
          else (case url_parse env target of
                  None \<Rightarrow> proxy_error res
                | Some base \<Rightarrow>
                    (case setHeader (js ''Content-Type'') (js ''text/html; charset=utf-8'') res of
                       None \<Rightarrow> proxy_error res
                     | Some res' \<Rightarrow>
                         res'\<lparr>res_body :=
                           cheerio_html env (rewrite env base (cheerio_load env txt))\<rparr>)))"

text \<open>
  The handler returns the outbound requests it made, in order, and the response it left.
\<close>

definition proxy_handler :: "env \<Rightarrow> jsstring option \<Rightarrow> request list \<times> response" where
  "proxy_handler env q =
     (case q of
        None \<Rightarrow> ([], send 400 (js ''Missing url query parameter''))
      | Some target \<Rightarrow>
          if target = [] then ([], send 400 (js ''Missing url query parameter''))
          else (case url_parse env target of
                  None \<Rightarrow> ([], send 400 (js ''Invalid URL''))
                | Some u \<Rightarrow>
                    if proxy_forbidden (hostname u)
                    then ([], send 400 (js ''Local addresses not allowed''))
                    else (case fetch env (proxy_request target) of
                            None \<Rightarrow> ([proxy_request target], send 500 (js ''Proxy fetch error''))
                          | Some r \<Rightarrow> ([proxy_request target], proxy_respond env target r))))"

section \<open>\<open>pages/api/download.js\<close>\<close>

definition download_forbidden :: "jsstring \<Rightarrow> bool" where
  "download_forbidden host =
     (host = (js ''localhost'') \<or> host = (js ''127.0.0.1'') \<or> startsWith host (js ''192.168.''))"

definition head_request :: "jsstring \<Rightarrow> request" where
  "head_request fileUrl =
     \<lparr>req_url = fileUrl, req_method = js ''HEAD'', req_headers = [], req_redirect = js ''follow''\<rparr>"

definition get_request :: "jsstring \<Rightarrow> request" where
  "get_request fileUrl =
     \<lparr>req_url = fileUrl, req_method = js ''GET'', req_headers = [], req_redirect = js ''follow''\<rparr>"

text \<open>\<open>cl && parseInt(cl) > 30 * 1024 * 1024\<close>; a comparison with \<open>NaN\<close> is false.\<close>

definition too_large :: "jsstring option \<Rightarrow> bool" where
  "too_large cl =
     (case cl of
        None \<Rightarrow> False
      | Some s \<Rightarrow>
          s \<noteq> [] \<and> (case parseInt s of None \<Rightarrow> False | Some n \<Rightarrow> n > 30 * 1024 * 1024))"

text \<open>
  The file name: \<open>download\<close>, replaced by the decoded last path segment when that segment
  is not empty; a throw of \<open>new URL\<close> or of \<open>decodeURIComponent\<close> is swallowed.
\<close>

definition derive_filename :: "env \<Rightarrow> jsstring \<Rightarrow> jsstring" where
  "derive_filename env fileUrl =
     (case url_parse env fileUrl of
        None \<Rightarrow> (js ''download'')
      | Some u \<Rightarrow>
          (let l = last_segment (pathname u) in
           if l = [] then (js ''download'')
           else (case decodeURIComponent env l of None \<Rightarrow> (js ''download'') | Some d \<Rightarrow> d)))"

text \<open>
  Lines 56 to 86, on the response \<open>res\<close> whose two headers are already set:
  \<open>r.body.getReader()\<close> throws when the body has no such method; then the body is piped
  when \<open>r.body.pipe\<close> is a function, and otherwise \<open>await r.arrayBuffer()\<close> is sent.
  A throw anywhere in the \<open>try\<close> reaches the \<open>catch\<close>, which sets status 500 on the
  response as it stands and sends its message.
\<close>

definition download_error :: "response \<Rightarrow> response" where
  "download_error res = res\<lparr>status := 500, res_body := js ''Download error''\<rparr>"

definition stream_body :: "origin \<Rightarrow> response \<Rightarrow> response" where
  "stream_body r res =
     (if \<not> origin_getReader r then download_error res
      else if origin_pipe r then res\<lparr>res_body := origin_body r\<rparr>
      else (case origin_arrayBuffer r of
              None \<Rightarrow> download_error res
            | Some buf \<Rightarrow> res\<lparr>res_body := buf\<rparr>))"

text \<open>
  Lines 42 to 86, for a response \<open>r\<close> with \<open>r.ok\<close>: the two \<open>setHeader\<close> calls, in order,
  then the body.
\<close>

definition download_stream :: "env \<Rightarrow> jsstring \<Rightarrow> origin \<Rightarrow> response" where
  "download_stream env fileUrl r =
     (let res = \<lparr>status = 200, res_headers = [], res_body = []\<rparr> in
      case setHeader (js ''Content-Disposition'')
             (js ''attachment; filename='' @ js [CHR 0x22] @ derive_filename env fileUrl @
              js [CHR 0x22]) res of
        None \<Rightarrow> download_error res
      | Some res1 \<Rightarrow>
          (case setHeader (js ''Content-Type'')
                  (or_default (headers_get r (js ''content-type'')) (js ''application/octet-stream''))
                  res1 of
             None \<Rightarrow> download_error res1
           | Some res2 \<Rightarrow> stream_body r res2))"

text \<open>Lines 36 to 86: the result of the GET request, \<open>None\<close> when \<open>fetch\<close> rejects.\<close>

definition download_respond :: "env \<Rightarrow> jsstring \<Rightarrow> origin option \<Rightarrow> response" where
  "download_respond env fileUrl got =
     (case got of
        None \<Rightarrow> send 500 (js ''Download error'')
      | Some r \<Rightarrow>
          if \<not> origin_ok r then send 502 (js ''Failed to fetch file'')
          else download_stream env fileUrl r)"

definition download_handler :: "env \<Rightarrow> jsstring option \<Rightarrow> request list \<times> response" where
  "download_handler env q =
     (case q of
        None \<Rightarrow> ([], send 400 (js ''Missing url''))
      | Some fileUrl \<Rightarrow>
          if fileUrl = [] then ([], send 400 (js ''Missing url''))
          else (case url_parse env fileUrl of
                  None \<Rightarrow> ([], send 500 (js ''Download error''))
                | Some u \<Rightarrow>
                    if download_forbidden (hostname u)
                    then ([], send 400 (js ''Local addresses not allowed''))
                    else (case fetch env (head_request fileUrl) of
                            None \<Rightarrow> ([head_request fileUrl], send 500 (js ''Download error''))
                          | Some head \<Rightarrow>
                              if too_large (headers_get head (js ''content-length''))
                              then ([head_request fileUrl],
                                    case setHeader (js ''Location'') fileUrl
                                           \<lparr>status = 302, res_headers = [], res_body = []\<rparr> of
                                      None \<Rightarrow> send 500 (js ''Download error'')
                                    | Some res \<Rightarrow> res)
                              else ([head_request fileUrl, get_request fileUrl],
                                    download_respond env fileUrl
                                      (fetch env (get_request fileUrl))))))"

section \<open>Vocabulary of the properties\<close>

text \<open>
  Counting nodes of a parse tree: the \<open>body\<close> elements, and the nodes equal to the script
  element that \<open>injected\<close> holds.
\<close>

fun count_nodes :: "(node \<Rightarrow> bool) \<Rightarrow> node \<Rightarrow> nat" where
  "count_nodes P (Element t attribs cs) =
     (if P (Element t attribs cs) then 1 else 0) + sum_list (map (count_nodes P) cs)"
| "count_nodes P (Text s) = (if P (Text s) then 1 else 0)"
| "count_nodes P (Other s) = (if P (Other s) then 1 else 0)"

definition count_doc :: "(node \<Rightarrow> bool) \<Rightarrow> node list \<Rightarrow> nat" where
  "count_doc P doc = sum_list (map (count_nodes P) doc)"

fun is_body :: "node \<Rightarrow> bool" where
  "is_body (Element t attribs cs) = (t = (js ''body''))"
| "is_body (Text s) = False"
| "is_body (Other s) = False"

definition is_probe :: "node \<Rightarrow> bool" where
  "is_probe n = (n = probe_script)"

text \<open>Applying one function to the attributes of every element, given its tag name.\<close>

fun map_attribs ::
  "(jsstring \<Rightarrow> (jsstring \<times> jsstring) list \<Rightarrow> (jsstring \<times> jsstring) list) \<Rightarrow> node \<Rightarrow> node" where
  "map_attribs F (Element t attribs cs) = Element t (F t attribs) (map (map_attribs F) cs)"
| "map_attribs F (Text s) = Text s"
| "map_attribs F (Other s) = Other s"

text \<open>
  The attribute step as the specification words it, to be compared with the six calls of
  \<open>makeAbs\<close>: the supported classes; a value is skipped when it is empty or begins, letters
  compared without case, with one of the four prefixes; any other value is replaced by its
  resolution against the base, and kept when the resolution fails.
\<close>

definition spec_classes :: "(jsstring \<times> jsstring) list" where
  "spec_classes =
     [(js ''a'', js ''href''), (js ''img'', js ''src''), (js ''script'', js ''src''), (js ''link'', js ''href''),
      (js ''video'', js ''src''), (js ''source'', js ''src'')]"

definition begins_ci :: "jsstring \<Rightarrow> jsstring \<Rightarrow> bool" where
  "begins_ci v p =
     (length p \<le> length v \<and> map canonicalize (take (length p) v) = map canonicalize p)"

definition spec_skip :: "jsstring \<Rightarrow> bool" where
  "spec_skip v =
     (v = [] \<or> begins_ci v (js ''data:'') \<or> begins_ci v (js ''mailto:'') \<or>
      begins_ci v (js ''javascript:'') \<or> begins_ci v (js ''#''))"

definition spec_value :: "env \<Rightarrow> url \<Rightarrow> jsstring \<Rightarrow> jsstring" where
  "spec_value env base v =
     (if spec_skip v then v
      else (case url_resolve env v base of None \<Rightarrow> v | Some absolute \<Rightarrow> absolute))"

definition spec_element ::
  "env \<Rightarrow> url \<Rightarrow> jsstring \<Rightarrow> (jsstring \<times> jsstring) list \<Rightarrow> (jsstring \<times> jsstring) list" where
  "spec_element env base t attribs =
     (case map_of spec_classes t of
        None \<Rightarrow> attribs
      | Some attr \<Rightarrow>
          (case map_of attribs attr of
             None \<Rightarrow> attribs
           | Some v \<Rightarrow> AList.update attr (spec_value env base v) attribs))"

section \<open>A sample environment\<close>

text \<open>
  Concrete values for the closed statements below: what Node's \<open>URL\<close> class returns on
  a few inputs, an origin that serves a small page, and a parse tree for that page.
\<close>

text \<open>
  A URL whose path holds the code unit \<open>0x4E2D\<close>, as a browser sends it after decoding the
  query string; the URL class escapes it in \<open>href\<close> and \<open>pathname\<close>.
\<close>

definition wide_url :: jsstring where
  "wide_url = js ''https://example.com/'' @ [0x4E2D] @ js ''.png''"

definition sample_urls :: "(jsstring \<times> url) list" where
  "sample_urls =
    [(js ''https://example.com/page.html'',
        \<lparr>href = js ''https://example.com/page.html'', protocol = js ''https:'',
         hostname = js ''example.com'', pathname = js ''/page.html''\<rparr>),
     (js ''http://db.internal/dump.sql'',
        \<lparr>href = js ''http://db.internal/dump.sql'', protocol = js ''http:'',
         hostname = js ''db.internal'', pathname = js ''/dump.sql''\<rparr>),
     (js ''ftp://example.com/file.bin'',
        \<lparr>href = js ''ftp://example.com/file.bin'', protocol = js ''ftp:'',
         hostname = js ''example.com'', pathname = js ''/file.bin''\<rparr>),
     (js ''https://example.com/movie.mp4'',
        \<lparr>href = js ''https://example.com/movie.mp4'', protocol = js ''https:'',
         hostname = js ''example.com'', pathname = js ''/movie.mp4''\<rparr>),
     (wide_url,
        \<lparr>href = js ''https://example.com/%E4%B8%AD.png'', protocol = js ''https:'',
         hostname = js ''example.com'', pathname = js ''/%E4%B8%AD.png''\<rparr>)]"

definition sample_resolved :: "((jsstring \<times> jsstring) \<times> jsstring) list" where
  "sample_resolved =
    [((js ''/x.mp4'', js ''https://example.com/page.html''), (js ''https://example.com/x.mp4'')),
     ((js ''https://example.com/x.mp4'', js ''https://example.com/page.html''),
        (js ''https://example.com/x.mp4'')),
     ((js ''http://example.com'', js ''https://example.com/page.html''), (js ''http://example.com/'')),
     ((js ''http://example.com/'', js ''https://example.com/page.html''), (js ''http://example.com/''))]"

definition sample_page :: jsstring where
  "sample_page =
     (js ''<html><body><a href='') @ (js [CHR 0x22]) @ (js ''/x.mp4'') @ (js [CHR 0x22]) @ (js ''>x</a></body></html>'')"

definition sample_tree :: "node list" where
  "sample_tree =
     [Element (js ''html'') []
        [Element (js ''head'') [] [],
         Element (js ''body'') [] [Element (js ''a'') [(js ''href'', js ''/x.mp4'')] [Text (js ''x'')]]]]"

fun render :: "node \<Rightarrow> jsstring" where
  "render (Element t attribs cs) =
     (js ''<'') @ t @ concat (map (\<lambda>(k, v). (js '' '') @ k @ (js ''='') @ (js [CHR 0x22]) @ v @ (js [CHR 0x22])) attribs) @
     (js ''>'') @ concat (map render cs) @ (js ''</'') @ t @ (js ''>'')"
| "render (Text s) = s"
| "render (Other s) = s"

text \<open>
  The sample origin answers every \<open>http\<close> or \<open>https\<close> request with the sample page and
  the given headers; its body is a Node stream (no \<open>getReader\<close>, a \<open>pipe\<close> method). The
  client rejects a URL of any other scheme.
\<close>

definition sample_origin :: "(jsstring \<times> jsstring) list \<Rightarrow> origin" where
  "sample_origin hdrs =
     \<lparr>origin_ok = True, origin_headers = hdrs, origin_text = Some sample_page,
      origin_getReader = False, origin_pipe = True, origin_body = sample_page,
      origin_arrayBuffer = Some sample_page\<rparr>"

definition sample_fetch :: "(jsstring \<times> jsstring) list \<Rightarrow> request \<Rightarrow> origin option" where
  "sample_fetch hdrs rq =
     (if startsWith (req_url rq) (js ''http:'') \<or> startsWith (req_url rq) (js ''https:'')
      then Some (sample_origin hdrs) else None)"

definition sample_env :: "(jsstring \<times> jsstring) list \<Rightarrow> env" where
  "sample_env hdrs =
     \<lparr>url_parse = map_of sample_urls,
      url_resolve = (\<lambda>v base. map_of sample_resolved (v, href base)),
      fetch = sample_fetch hdrs,
      cheerio_load = (\<lambda>t. if t = sample_page then sample_tree else []),
      cheerio_html = (\<lambda>doc. concat (map render doc)),
      decodeURIComponent = (\<lambda>s. if of_char CHR ''%'' \<in> set s then None else Some s)\<rparr>"

text \<open>
  The parsed base URL of the sample page, a document with a \<open>frameset\<close> in place of a
  body, and a list of elements that covers the cases of the attribute step.
\<close>

definition page_url :: url where
  "page_url = \<lparr>href = js ''https://example.com/page.html'', protocol = js ''https:'',
         hostname = js ''example.com'', pathname = js ''/page.html''\<rparr>"

definition frameset_tree :: "node list" where
  "frameset_tree = [Element (js ''html'') [] [Element (js ''head'') [] [], Element (js ''frameset'') [] []]]"

definition links_tree :: "node list" where
  "links_tree =
     [Element (js ''a'') [(js ''href'', js ''JavaScript:void(0)'')] [],
      Element (js ''img'') [(js ''alt'', js ''logo''), (js ''src'', js ''http://[bad'')] [],
      Element (js ''a'') [(js ''name'', js ''top'')] [],
      Element (js ''link'') [(js ''href'', js '''')] [],
      Element (js ''div'') [(js ''href'', js ''/x.mp4'')] [],
      Element (js ''a'') [(js ''href'', js ''/x.mp4'')] [Text (js ''x'')]]"

section \<open>Missing and empty \<open>url\<close> parameter\<close>

text \<open>
  C10. When the \<open>url\<close> query parameter is present but is the empty string, each handler
  answers as it does when the parameter is missing: status 400 with
  \<open>Missing url query parameter\<close> (proxy) or \<open>Missing url\<close> (download), no outbound
  request, and whatever the URL parser of the environment would say about the string.
\<close>

theorem empty_url_treated_as_missing:
  "proxy_handler env (Some []) = ([], send 400 (js ''Missing url query parameter'')) \<and>
   proxy_handler env (Some []) = proxy_handler env None \<and>
   download_handler env (Some []) = ([], send 400 (js ''Missing url'')) \<and>
   download_handler env (Some []) = download_handler env None"
  by (simp add: proxy_handler_def download_handler_def)

lemmas sample_defs = js_def sample_env_def sample_urls_def sample_fetch_def sample_origin_def
  sample_resolved_def sample_page_def sample_tree_def wide_url_def

lemmas handler_defs = proxy_handler_def download_handler_def proxy_forbidden_def
  download_forbidden_def endsWith_def headers_get_def too_large_def
  proxy_request_def head_request_def get_request_def

lemmas header_defs = setHeader_def valid_header_value_def valid_header_char_def

lemmas rewrite_defs = js_def rewrite_def absolutize_def makeAbs_def append_sel_def rewrite_attr_def
  skip_regex_def canonicalize_def

section \<open>What the string tests mean\<close>

text \<open>
  \<open>startsWith\<close>, \<open>endsWith\<close> and \<open>str_includes\<close> are the prefix, suffix and substring
  tests of JavaScript.
\<close>

lemma startsWith_iff: "startsWith s p \<longleftrightarrow> (\<exists>b. s = p @ b)"
  by (induction s p rule: startsWith.induct) auto

lemma endsWith_iff: "endsWith s p \<longleftrightarrow> (\<exists>a. s = a @ p)"
proof -
  have "endsWith s p \<longleftrightarrow> (\<exists>b. rev s = rev p @ b)"
    by (simp add: endsWith_def startsWith_iff)
  also have "\<dots> \<longleftrightarrow> (\<exists>a. s = a @ p)"
  proof
    assume "\<exists>b. rev s = rev p @ b"
    then obtain b where "rev s = rev p @ b" ..
    then have "s = rev b @ p" by (metis rev_append rev_rev_ident)
    then show "\<exists>a. s = a @ p" ..
  next
    assume "\<exists>a. s = a @ p"
    then obtain a where "s = a @ p" ..
    then have "rev s = rev p @ rev a" by simp
    then show "\<exists>b. rev s = rev p @ b" ..
  qed
  finally show ?thesis .
qed

lemma str_includes_iff: "str_includes s p \<longleftrightarrow> (\<exists>a b. s = a @ p @ b)"
proof (induction s)
  case Nil
  then show ?case by auto
next
  case (Cons c cs)
  show ?case
  proof
    assume "str_includes (c # cs) p"
    then consider "startsWith (c # cs) p" | "str_includes cs p" by auto
    then show "\<exists>a b. c # cs = a @ p @ b"
    proof cases
      case 1
      then obtain b where "c # cs = p @ b" by (auto simp: startsWith_iff)
      then have "c # cs = [] @ p @ b" by simp
      then show ?thesis by blast
    next
      case 2
      then obtain a b where "cs = a @ p @ b" using Cons.IH by auto
      then have "c # cs = (c # a) @ p @ b" by simp
      then show ?thesis by blast
    qed
  next
    assume "\<exists>a b. c # cs = a @ p @ b"
    then obtain a b where ab: "c # cs = a @ p @ b" by blast
    show "str_includes (c # cs) p"
    proof (cases a)
      case Nil
      with ab have "startsWith (c # cs) p" by (auto simp: startsWith_iff)
      then show ?thesis by simp
    next
      case (Cons x xs)
      with ab have "cs = xs @ p @ b" by simp
      then have "str_includes cs p" using Cons.IH by blast
      then show ?thesis by simp
    qed
  qed
qed

section \<open>The host deny lists\<close>

text \<open>
  What each guard does reject: the proxy handler all four classes of host, the download
  handler only the first three.
\<close>

lemma proxy_guard_rejects:
  assumes "target \<noteq> []" and "url_parse env target = Some u"
    and "hostname u = js ''localhost'' \<or> hostname u = js ''127.0.0.1'' \<or>
         startsWith (hostname u) (js ''192.168.'') \<or> endsWith (hostname u) (js ''.internal'')"
  shows "proxy_handler env (Some target) = ([], send 400 (js ''Local addresses not allowed''))"
  using assms by (simp add: proxy_handler_def proxy_forbidden_def)

lemma download_guard_rejects:
  assumes "target \<noteq> []" and "url_parse env target = Some u"
    and "hostname u = js ''localhost'' \<or> hostname u = js ''127.0.0.1'' \<or>
         startsWith (hostname u) (js ''192.168.'')"
  shows "download_handler env (Some target) = ([], send 400 (js ''Local addresses not allowed''))"
  using assms by (simp add: download_handler_def download_forbidden_def)

lemma download_guard_passes_others:
  assumes "target \<noteq> []" and "url_parse env target = Some u"
    and "hostname u \<noteq> js ''localhost''" and "hostname u \<noteq> js ''127.0.0.1''"
    and "\<not> startsWith (hostname u) (js ''192.168.'')"
  shows "\<exists>rest. fst (download_handler env (Some target)) = head_request target # rest"
  using assms
  by (simp add: download_handler_def download_forbidden_def split: option.splits)

text \<open>
  C1 (fails for the download handler). For the URL \<open>http://db.internal/dump.sql\<close>, whose
  hostname ends with \<open>.internal\<close>, the proxy handler answers 400 with
  \<open>Local addresses not allowed\<close> and makes no request, but the download handler sends a
  HEAD and then a GET request to it: its deny list has no \<open>.internal\<close> test.
\<close>

theorem download_fetches_internal_host:
  "map_option hostname (url_parse (sample_env []) (js ''http://db.internal/dump.sql'')) =
     Some (js ''db.internal'') \<and>
   endsWith (js ''db.internal'') (js ''.internal'') \<and>
   proxy_handler (sample_env []) (Some (js ''http://db.internal/dump.sql'')) =
     ([], send 400 (js ''Local addresses not allowed'')) \<and>
   fst (download_handler (sample_env []) (Some (js ''http://db.internal/dump.sql''))) =
     [head_request (js ''http://db.internal/dump.sql''),
      get_request (js ''http://db.internal/dump.sql'')]"
  by (simp add: sample_defs handler_defs)

section \<open>What the guards accept\<close>

text \<open>
  C2 (as stated, false). The URL \<open>ftp://example.com/file.bin\<close> parses with the scheme
  \<open>ftp:\<close>, and both handlers pass it to the HTTP client.
\<close>

theorem ftp_url_reaches_fetch:
  "map_option protocol (url_parse (sample_env []) (js ''ftp://example.com/file.bin'')) =
     Some (js ''ftp:'') \<and>
   fst (proxy_handler (sample_env []) (Some (js ''ftp://example.com/file.bin''))) =
     [proxy_request (js ''ftp://example.com/file.bin'')] \<and>
   fst (download_handler (sample_env []) (Some (js ''ftp://example.com/file.bin''))) =
     [head_request (js ''ftp://example.com/file.bin'')]"
  by (simp add: sample_defs handler_defs)

text \<open>
  C2 (amended). A handler makes an outbound request exactly when the \<open>url\<close> parameter is
  present, not empty, parses as a URL, and the parsed hostname is outside the handler's
  deny list. The scheme of the URL is not part of the test.
\<close>

theorem guard_accepts_iff:
  "(fst (proxy_handler env q) \<noteq> [] \<longleftrightarrow>
      (\<exists>target u. q = Some target \<and> target \<noteq> [] \<and> url_parse env target = Some u \<and>
         \<not> proxy_forbidden (hostname u))) \<and>
   (fst (download_handler env q) \<noteq> [] \<longleftrightarrow>
      (\<exists>target u. q = Some target \<and> target \<noteq> [] \<and> url_parse env target = Some u \<and>
         \<not> download_forbidden (hostname u)))"
  by (auto simp: proxy_handler_def download_handler_def split: option.splits if_splits)

theorem guard_accepts_iff_witness:
  "fst (proxy_handler (sample_env []) (Some (js ''ftp://example.com/file.bin''))) \<noteq> [] \<and>
   fst (download_handler (sample_env []) (Some (js ''ftp://example.com/file.bin''))) \<noteq> []"
  using guard_accepts_iff [of "sample_env []" "Some (js ''ftp://example.com/file.bin'')"]
  by (simp add: sample_defs handler_defs)

section \<open>A \<open>url\<close> parameter that does not parse\<close>

text \<open>What each handler answers, in any environment, when \<open>new URL\<close> throws.\<close>

lemma proxy_invalid_url:
  assumes "target \<noteq> []" and "url_parse env target = None"
  shows "proxy_handler env (Some target) = ([], send 400 (js ''Invalid URL''))"
  using assms by (simp add: proxy_handler_def)

lemma download_invalid_url:
  assumes "target \<noteq> []" and "url_parse env target = None"
  shows "download_handler env (Some target) = ([], send 500 (js ''Download error''))"
  using assms by (simp add: download_handler_def)

text \<open>
  C3 (fails for the download handler). The string \<open>not a url\<close> does not parse. The proxy
  handler answers 400 with \<open>Invalid URL\<close>; the download handler, whose \<open>new URL\<close> sits
  inside the general \<open>try\<close>, answers 500 with \<open>Download error\<close>. Neither makes a request.
\<close>

theorem invalid_url_download_500:
  "url_parse (sample_env []) (js ''not a url'') = None \<and>
   download_handler (sample_env []) (Some (js ''not a url'')) =
     ([], send 500 (js ''Download error'')) \<and>
   proxy_handler (sample_env []) (Some (js ''not a url'')) = ([], send 400 (js ''Invalid URL''))"
  by (simp add: sample_defs proxy_handler_def download_handler_def)

section \<open>The \<open>User-Agent\<close> header\<close>

text \<open>
  Every request of the proxy handler carries the header \<open>User-Agent\<close> with the value
  \<open>Mozilla/5.0 (compatible; VercelProxy/1.0)\<close>.
\<close>

lemma proxy_requests_carry_user_agent:
  assumes "rq \<in> set (fst (proxy_handler env q))"
  shows "map_of (req_headers rq) (js ''User-Agent'') =
           Some (js ''Mozilla/5.0 (compatible; VercelProxy/1.0)'')"
  using assms
  by (auto simp: proxy_handler_def proxy_request_def split: option.splits if_splits)

text \<open>
  C9 (fails for the download handler). For \<open>https://example.com/movie.mp4\<close> the proxy
  handler sends its one request with the \<open>User-Agent\<close> header; the download handler sends
  a HEAD and a GET request, and neither carries a \<open>User-Agent\<close> header, nor any header.
\<close>

theorem download_requests_no_user_agent:
  "fst (proxy_handler (sample_env []) (Some (js ''https://example.com/movie.mp4''))) =
     [proxy_request (js ''https://example.com/movie.mp4'')] \<and>
   map_of (req_headers (proxy_request (js ''https://example.com/movie.mp4''))) (js ''User-Agent'') =
     Some (js ''Mozilla/5.0 (compatible; VercelProxy/1.0)'') \<and>
   fst (download_handler (sample_env []) (Some (js ''https://example.com/movie.mp4''))) =
     [head_request (js ''https://example.com/movie.mp4''),
      get_request (js ''https://example.com/movie.mp4'')] \<and>
   map_of (req_headers (head_request (js ''https://example.com/movie.mp4''))) (js ''User-Agent'') =
     None \<and>
   map_of (req_headers (get_request (js ''https://example.com/movie.mp4''))) (js ''User-Agent'') =
     None \<and>
   req_headers (head_request (js ''https://example.com/movie.mp4'')) = [] \<and>
   req_headers (get_request (js ''https://example.com/movie.mp4'')) = []"
  by (simp add: sample_defs handler_defs)

section \<open>The size gate of the download handler\<close>

lemma parseInt_Nil: "parseInt [] = None"
  by (simp add: parseInt_def js_def)

lemmas parseInt_defs = js_def parseInt_def isWhiteSpace_def radixDigit_def digitVal_def digitNat_def

text \<open>
  The gate in any environment, for a request that passed the guard and whose HEAD request
  returned \<open>head\<close>. A \<open>content-length\<close> whose \<open>parseInt\<close> value exceeds \<open>30 * 1024 * 1024\<close>
  ends the request after the HEAD: with the redirect when the URL is a value Node accepts
  for the \<open>Location\<close> header, with the 500 of the \<open>catch\<close> when \<open>writeHead\<close> throws.
  In every other case the GET request follows.
\<close>

lemma too_large_iff:
  "too_large (headers_get head (js ''content-length'')) \<longleftrightarrow>
     (\<exists>cl n. headers_get head (js ''content-length'') = Some cl \<and> parseInt cl = Some n \<and>
        30 * 1024 * 1024 < n)"
  by (auto simp: too_large_def parseInt_Nil split: option.splits)

lemma download_large:
  assumes "fileUrl \<noteq> []" and "url_parse env fileUrl = Some u"
    and "\<not> download_forbidden (hostname u)"
    and "fetch env (head_request fileUrl) = Some head"
    and "headers_get head (js ''content-length'') = Some cl" and "parseInt cl = Some n"
    and "30 * 1024 * 1024 < n"
  shows "download_handler env (Some fileUrl) =
           ([head_request fileUrl],
            if valid_header_value fileUrl
            then \<lparr>status = 302, res_headers = [(js ''Location'', fileUrl)], res_body = []\<rparr>
            else send 500 (js ''Download error''))"
proof -
  have "too_large (headers_get head (js ''content-length''))"
    using assms(5-7) too_large_iff by blast
  with assms(1-4) show ?thesis
    by (simp add: download_handler_def setHeader_def)
qed

lemma download_not_large:
  assumes "fileUrl \<noteq> []" and "url_parse env fileUrl = Some u"
    and "\<not> download_forbidden (hostname u)"
    and "fetch env (head_request fileUrl) = Some head"
    and "\<not> (\<exists>cl n. headers_get head (js ''content-length'') = Some cl \<and> parseInt cl = Some n \<and>
           30 * 1024 * 1024 < n)"
  shows "download_handler env (Some fileUrl) =
           ([head_request fileUrl, get_request fileUrl],
            download_respond env fileUrl (fetch env (get_request fileUrl)))"
proof -
  have "\<not> too_large (headers_get head (js ''content-length''))"
    using assms(5) too_large_iff by blast
  with assms(1-4) show ?thesis
    by (simp add: download_handler_def)
qed

text \<open>
  The streaming path for a response with \<open>r.ok\<close> and header values that Node accepts:
  the body is relayed when it offers both \<open>getReader\<close> and \<open>pipe\<close>; a body without
  \<open>getReader\<close>, which is what a Node stream is, ends in the \<open>catch\<close>.
\<close>

lemma download_respond_relays:
  assumes "origin_ok r" and "origin_getReader r" and "origin_pipe r"
    and "valid_header_value (derive_filename env fileUrl)"
    and "valid_header_value
           (or_default (headers_get r (js ''content-type'')) (js ''application/octet-stream''))"
  shows "download_respond env fileUrl (Some r) =
           \<lparr>status = 200,
            res_headers =
              [(js ''Content-Disposition'',
                js ''attachment; filename='' @ js [CHR 0x22] @ derive_filename env fileUrl @
                js [CHR 0x22]),
               (js ''Content-Type'',
                or_default (headers_get r (js ''content-type'')) (js ''application/octet-stream''))],
            res_body = origin_body r\<rparr>"
proof -
  have "valid_header_value (js ''attachment; filename='' @ js [CHR 0x22] @
          derive_filename env fileUrl @ js [CHR 0x22])"
    using assms(4) by (simp add: valid_header_value_def valid_header_char_def js_def)
  with assms show ?thesis
    by (simp add: download_respond_def download_stream_def setHeader_def stream_body_def)
qed

lemma download_respond_node_stream:
  assumes "origin_ok r" and "\<not> origin_getReader r"
    and "valid_header_value (derive_filename env fileUrl)"
    and "valid_header_value
           (or_default (headers_get r (js ''content-type'')) (js ''application/octet-stream''))"
  shows "download_respond env fileUrl (Some r) =
           \<lparr>status = 500,
            res_headers =
              [(js ''Content-Disposition'',
                js ''attachment; filename='' @ js [CHR 0x22] @ derive_filename env fileUrl @
                js [CHR 0x22]),
               (js ''Content-Type'',
                or_default (headers_get r (js ''content-type'')) (js ''application/octet-stream''))],
            res_body = js ''Download error''\<rparr>"
proof -
  have "valid_header_value (js ''attachment; filename='' @ js [CHR 0x22] @
          derive_filename env fileUrl @ js [CHR 0x22])"
    using assms(3) by (simp add: valid_header_value_def valid_header_char_def js_def)
  with assms show ?thesis
    by (simp add: download_respond_def download_stream_def setHeader_def stream_body_def
        download_error_def)
qed

text \<open>
  C4 (fails on the streaming path). The sample origin answers as \<open>node-fetch\<close> does, with a
  body that is a Node stream. For \<open>https://example.com/movie.mp4\<close>: a \<open>content-length\<close> of
  31 MiB gives the redirect, 302 with \<open>Location\<close> equal to the URL, after the HEAD request
  alone. A \<open>content-length\<close> of 29 MiB, or none, sends the handler on to the GET request
  and the two attachment headers, where \<open>r.body.getReader()\<close> throws: the answer is 500
  with \<open>Download error\<close>, and nothing is streamed.
\<close>

theorem download_stream_path_fails:
  "parseInt (js ''32505856'') = Some (31 * 1024 * 1024) \<and>
   download_handler (sample_env [(js ''content-length'', js ''32505856'')])
       (Some (js ''https://example.com/movie.mp4'')) =
     ([head_request (js ''https://example.com/movie.mp4'')],
      \<lparr>status = 302, res_headers = [(js ''Location'', js ''https://example.com/movie.mp4'')],
       res_body = []\<rparr>) \<and>
   parseInt (js ''30408704'') = Some (29 * 1024 * 1024) \<and>
   download_handler (sample_env [(js ''content-length'', js ''30408704'')])
       (Some (js ''https://example.com/movie.mp4'')) =
     ([head_request (js ''https://example.com/movie.mp4''),
       get_request (js ''https://example.com/movie.mp4'')],
      \<lparr>status = 500,
       res_headers =
         [(js ''Content-Disposition'',
           js ''attachment; filename='' @ js [CHR 0x22] @ js ''movie.mp4'' @ js [CHR 0x22]),
          (js ''Content-Type'', js ''application/octet-stream'')],
       res_body = js ''Download error''\<rparr>) \<and>
   download_handler (sample_env []) (Some (js ''https://example.com/movie.mp4'')) =
     ([head_request (js ''https://example.com/movie.mp4''),
       get_request (js ''https://example.com/movie.mp4'')],
      \<lparr>status = 500,
       res_headers =
         [(js ''Content-Disposition'',
           js ''attachment; filename='' @ js [CHR 0x22] @ js ''movie.mp4'' @ js [CHR 0x22]),
          (js ''Content-Type'', js ''application/octet-stream'')],
       res_body = js ''Download error''\<rparr>)"
proof -
  let ?U = "js ''https://example.com/movie.mp4''"
  let ?u = "\<lparr>href = js ''https://example.com/movie.mp4'', protocol = js ''https:'',
         hostname = js ''example.com'', pathname = js ''/movie.mp4''\<rparr>"
  let ?gone = "\<lparr>status = 500,
       res_headers =
         [(js ''Content-Disposition'',
           js ''attachment; filename='' @ js [CHR 0x22] @ js ''movie.mp4'' @ js [CHR 0x22]),
          (js ''Content-Type'', js ''application/octet-stream'')],
       res_body = js ''Download error''\<rparr>"
  have ne: "?U \<noteq> []" by (simp add: js_def)
  have p: "\<And>h. url_parse (sample_env h) ?U = Some ?u"
    by (simp add: sample_defs)
  have g: "\<not> download_forbidden (hostname ?u)"
    by (simp add: download_forbidden_def js_def)
  have f: "\<And>h. fetch (sample_env h) (head_request ?U) = Some (sample_origin h)"
    "\<And>h. fetch (sample_env h) (get_request ?U) = Some (sample_origin h)"
    by (simp_all add: sample_defs head_request_def get_request_def)
  have big: "parseInt (js ''32505856'') = Some (31 * 1024 * 1024)"
    by (simp add: parseInt_defs)
  have small: "parseInt (js ''30408704'') = Some (29 * 1024 * 1024)"
    by (simp add: parseInt_defs)
  have loc: "valid_header_value ?U"
    by (simp add: header_defs js_def)
  have fname: "\<And>h. derive_filename (sample_env h) ?U = js ''movie.mp4''"
    unfolding derive_filename_def p by (simp add: last_segment_def sample_defs)
  have vname: "\<And>h. valid_header_value (derive_filename (sample_env h) ?U)"
    unfolding fname by (simp add: header_defs js_def)
  have ctype: "\<And>v. or_default (headers_get (sample_origin [(js ''content-length'', v)])
        (js ''content-type'')) (js ''application/octet-stream'') = js ''application/octet-stream''"
    "or_default (headers_get (sample_origin []) (js ''content-type''))
        (js ''application/octet-stream'') = js ''application/octet-stream''"
    by (simp_all add: or_default_def headers_get_def sample_origin_def js_def)
  have vtype: "valid_header_value (js ''application/octet-stream'')"
    by (simp add: header_defs js_def)
  have node: "\<And>h. origin_ok (sample_origin h)" "\<And>h. \<not> origin_getReader (sample_origin h)"
    by (simp_all add: sample_origin_def)
  have 1: "download_handler (sample_env [(js ''content-length'', js ''32505856'')]) (Some ?U) =
     ([head_request ?U],
      \<lparr>status = 302, res_headers = [(js ''Location'', ?U)], res_body = []\<rparr>)"
    using download_large [OF ne p g f(1), of "[(js ''content-length'', js ''32505856'')]"
        "js ''32505856''" "31 * 1024 * 1024"] big loc
    by (simp add: headers_get_def sample_origin_def)
  have "download_handler (sample_env [(js ''content-length'', js ''30408704'')]) (Some ?U) =
     ([head_request ?U, get_request ?U],
      download_respond (sample_env [(js ''content-length'', js ''30408704'')]) ?U
        (Some (sample_origin [(js ''content-length'', js ''30408704'')])))"
    using download_not_large [OF ne p g f(1), of "[(js ''content-length'', js ''30408704'')]"] small
    by (simp add: headers_get_def sample_origin_def f(2))
  also have "download_respond (sample_env [(js ''content-length'', js ''30408704'')]) ?U
        (Some (sample_origin [(js ''content-length'', js ''30408704'')])) = ?gone"
    using download_respond_node_stream [OF node vname, of "[(js ''content-length'', js ''30408704'')]"
        "[(js ''content-length'', js ''30408704'')]"] vtype
    by (simp add: ctype fname)
  finally have 2: "download_handler (sample_env [(js ''content-length'', js ''30408704'')]) (Some ?U) =
     ([head_request ?U, get_request ?U], ?gone)" .
  have "download_handler (sample_env []) (Some ?U) =
     ([head_request ?U, get_request ?U],
      download_respond (sample_env []) ?U (Some (sample_origin [])))"
    using download_not_large [OF ne p g f(1), of "[]"]
    by (simp add: headers_get_def sample_origin_def f(2))
  also have "download_respond (sample_env []) ?U (Some (sample_origin [])) = ?gone"
    using download_respond_node_stream [OF node vname, of "[]" "[]"] vtype
    by (simp add: ctype fname)
  finally have 3: "download_handler (sample_env []) (Some ?U) =
     ([head_request ?U, get_request ?U], ?gone)" .
  from big small 1 2 3 show ?thesis by blast
qed

section \<open>The content-type branch of the proxy handler\<close>

text \<open>
  C5 (as stated, false). The content type \<open>multipart/related; type="text/html"\<close> does
  not begin with \<open>text/html\<close>, yet the proxy handler answers 200, not 302: the test of
  the source is \<open>contentType.includes('text/html')\<close>.
\<close>

theorem includes_not_prefix_rewritten:
  "\<not> startsWith (js ''multipart/related; type='' @ js [CHR 0x22] @ js ''text/html'' @ js [CHR 0x22])
       (js ''text/html'') \<and>
   fst (proxy_handler
          (sample_env [(js ''content-type'',
             js ''multipart/related; type='' @ js [CHR 0x22] @ js ''text/html'' @ js [CHR 0x22])])
          (Some (js ''https://example.com/page.html''))) =
     [proxy_request (js ''https://example.com/page.html'')] \<and>
   status (snd (proxy_handler
          (sample_env [(js ''content-type'',
             js ''multipart/related; type='' @ js [CHR 0x22] @ js ''text/html'' @ js [CHR 0x22])])
          (Some (js ''https://example.com/page.html'')))) = 200"
  by (simp add: sample_defs handler_defs header_defs proxy_respond_def or_default_def)

text \<open>
  C5 (amended). Let a proxy request pass the guard, let \<open>fetch\<close> return a response and
  let its text be read. With \<open>contentType\<close> the \<open>content-type\<close> header, or the empty string
  when the header is absent: when \<open>contentType\<close> does not contain \<open>text/html\<close> the handler
  answers 302 with \<open>Location\<close> equal to the target, provided the target is a value Node
  accepts for a header, and 500 with \<open>Proxy fetch error\<close> when it is not; when
  \<open>contentType\<close> contains \<open>text/html\<close> (as every type that begins with it does) the handler
  answers 200 with \<open>Content-Type\<close> \<open>text/html; charset=utf-8\<close> and the serialised rewritten
  document.
\<close>

theorem proxy_content_type_branch:
  assumes "target \<noteq> []" and "url_parse env target = Some u"
    and "\<not> proxy_forbidden (hostname u)"
    and "fetch env (proxy_request target) = Some r"
    and "origin_text r = Some txt"
    and "contentType = or_default (headers_get r (js ''content-type'')) []"
  shows
    "(\<not> (\<exists>a b. contentType = a @ js ''text/html'' @ b) \<and> valid_header_value target \<longrightarrow>
        proxy_handler env (Some target) =
          ([proxy_request target],
           \<lparr>status = 302, res_headers = [(js ''Location'', target)], res_body = []\<rparr>)) \<and>
     (\<not> (\<exists>a b. contentType = a @ js ''text/html'' @ b) \<and> \<not> valid_header_value target \<longrightarrow>
        proxy_handler env (Some target) =
          ([proxy_request target],
           \<lparr>status = 500, res_headers = [], res_body = js ''Proxy fetch error''\<rparr>)) \<and>
     ((\<exists>a b. contentType = a @ js ''text/html'' @ b) \<longrightarrow>
        proxy_handler env (Some target) =
          ([proxy_request target],
           \<lparr>status = 200,
            res_headers = [(js ''Content-Type'', js ''text/html; charset=utf-8'')],
            res_body = cheerio_html env (rewrite env u (cheerio_load env txt))\<rparr>))"
proof -
  have ok: "valid_header_value (js ''text/html; charset=utf-8'')"
    by (simp add: header_defs js_def)
  show ?thesis
    using assms ok
    by (simp add: proxy_handler_def proxy_respond_def proxy_error_def setHeader_def
        str_includes_iff Let_def)
qed

text \<open>
  The two scenarios of the specification, and a target that cannot be a header value: a
  page of type \<open>text/html\<close> comes back with its link made absolute and the script
  appended; a resource of type \<open>image/png\<close> is redirected; for the URL with the code unit
  \<open>0x4E2D\<close> the redirect fails and the answer is 500.
\<close>

theorem proxy_content_type_branch_witness:
  "proxy_handler (sample_env [(js ''content-type'', js ''text/html; charset=utf-8'')])
       (Some (js ''https://example.com/page.html'')) =
     ([proxy_request (js ''https://example.com/page.html'')],
      \<lparr>status = 200, res_headers = [(js ''Content-Type'', js ''text/html; charset=utf-8'')],
       res_body = concat (map render
         [Element (js ''html'') []
            [Element (js ''head'') [] [],
             Element (js ''body'') []
               ([Element (js ''a'') [(js ''href'', js ''https://example.com/x.mp4'')]
                   [Text (js ''x'')]] @
                injected_nodes)]])\<rparr>) \<and>
   proxy_handler (sample_env [(js ''content-type'', js ''image/png'')])
       (Some (js ''https://example.com/page.html'')) =
     ([proxy_request (js ''https://example.com/page.html'')],
      \<lparr>status = 302, res_headers = [(js ''Location'', js ''https://example.com/page.html'')],
       res_body = []\<rparr>) \<and>
   proxy_handler (sample_env [(js ''content-type'', js ''image/png'')]) (Some wide_url) =
     ([proxy_request wide_url],
      \<lparr>status = 500, res_headers = [], res_body = js ''Proxy fetch error''\<rparr>)"
proof -
  let ?U = "js ''https://example.com/page.html''"
  let ?H = "[(js ''content-type'', js ''text/html; charset=utf-8'')]"
  let ?P = "[(js ''content-type'', js ''image/png'')]"
  let ?w = "\<lparr>href = js ''https://example.com/%E4%B8%AD.png'', protocol = js ''https:'',
         hostname = js ''example.com'', pathname = js ''/%E4%B8%AD.png''\<rparr>"
  have ne: "?U \<noteq> []" "wide_url \<noteq> []" by (simp_all add: js_def wide_url_def)
  have p: "\<And>h. url_parse (sample_env h) ?U = Some page_url"
    "\<And>h. url_parse (sample_env h) wide_url = Some ?w"
    by (simp_all add: sample_defs page_url_def)
  have g: "\<not> proxy_forbidden (hostname page_url)" "\<not> proxy_forbidden (hostname ?w)"
    by (simp_all add: proxy_forbidden_def endsWith_def page_url_def js_def)
  have f: "\<And>h. fetch (sample_env h) (proxy_request ?U) = Some (sample_origin h)"
    "\<And>h. fetch (sample_env h) (proxy_request wide_url) = Some (sample_origin h)"
    by (simp_all add: sample_defs proxy_request_def)
  have t: "\<And>h. origin_text (sample_origin h) = Some sample_page"
    by (simp add: sample_origin_def)
  note page = proxy_content_type_branch [OF ne(1) p(1) g(1) f(1) t refl]
  note wide = proxy_content_type_branch [OF ne(2) p(2) g(2) f(2) t refl]
  have html: "\<exists>a b. or_default (headers_get (sample_origin ?H) (js ''content-type'')) [] =
      a @ js ''text/html'' @ b"
    by (rule iffD1 [OF str_includes_iff])
       (simp add: or_default_def headers_get_def sample_origin_def js_def)
  have png: "\<not> (\<exists>a b. or_default (headers_get (sample_origin ?P) (js ''content-type'')) [] =
      a @ js ''text/html'' @ b)"
    unfolding str_includes_iff [symmetric]
    by (simp add: or_default_def headers_get_def sample_origin_def js_def)
  have loc: "valid_header_value ?U" "\<not> valid_header_value wide_url"
    by (simp_all add: header_defs js_def wide_url_def)
  have tree: "rewrite (sample_env ?H) page_url (cheerio_load (sample_env ?H) sample_page) =
     [Element (js ''html'') []
            [Element (js ''head'') [] [],
             Element (js ''body'') []
               ([Element (js ''a'') [(js ''href'', js ''https://example.com/x.mp4'')]
                   [Text (js ''x'')]] @
                injected_nodes)]]"
    by (simp add: sample_env_def sample_tree_def sample_resolved_def page_url_def rewrite_defs)
  have html_of: "\<And>h doc. cheerio_html (sample_env h) doc = concat (map render doc)"
    by (simp add: sample_env_def)
  have 1: "proxy_handler (sample_env ?H) (Some ?U) =
     ([proxy_request ?U],
      \<lparr>status = 200, res_headers = [(js ''Content-Type'', js ''text/html; charset=utf-8'')],
       res_body = cheerio_html (sample_env ?H)
         (rewrite (sample_env ?H) page_url (cheerio_load (sample_env ?H) sample_page))\<rparr>)"
    using page [of ?H] html by blast
  have 2: "proxy_handler (sample_env ?P) (Some ?U) =
     ([proxy_request ?U], \<lparr>status = 302, res_headers = [(js ''Location'', ?U)], res_body = []\<rparr>)"
    using page [of ?P] png loc(1) by blast
  have 3: "proxy_handler (sample_env ?P) (Some wide_url) =
     ([proxy_request wide_url],
      \<lparr>status = 500, res_headers = [], res_body = js ''Proxy fetch error''\<rparr>)"
    using wide [of ?P] png loc(2) by blast
  from 1 2 3 show ?thesis
    unfolding tree html_of by simp
qed

section \<open>The appended script\<close>

lemma each_tag_Text_iff: "each_tag sel f c = Text s \<longleftrightarrow> c = Text s"
  by (cases c) auto

lemma append_to_Text_iff: "append_to sel content c = Text s \<longleftrightarrow> c = Text s"
  by (cases c) auto

lemma map_eq_single_Text:
  assumes "\<And>c. g c = Text s \<longleftrightarrow> c = Text s"
  shows "map g cs = [Text s] \<longleftrightarrow> cs = [Text s]"
  using assms by (cases cs) auto

lemma rewrite_attr_Nil_iff: "rewrite_attr env base attr attribs = [] \<longleftrightarrow> attribs = []"
  by (cases attribs) (auto simp: rewrite_attr_def split: option.splits)

lemma is_probe_each_tag:
  "is_probe (each_tag sel (rewrite_attr env base attr) n) = is_probe n"
  by (cases n)
     (auto simp: is_probe_def probe_script_def rewrite_attr_Nil_iff
        map_eq_single_Text [OF each_tag_Text_iff])

lemma count_probe_each_tag:
  "count_nodes is_probe (each_tag sel (rewrite_attr env base attr) n) = count_nodes is_probe n"
proof (induction n)
  case (Element t attribs cs)
  have "sum_list (map (count_nodes is_probe \<circ> each_tag sel (rewrite_attr env base attr)) cs) =
        sum_list (map (count_nodes is_probe) cs)"
    by (rule arg_cong [where f = sum_list], rule map_cong [OF refl]) (simp add: Element.IH)
  moreover have "is_probe (Element t (if t = sel then rewrite_attr env base attr attribs else attribs)
         (map (each_tag sel (rewrite_attr env base attr)) cs)) = is_probe (Element t attribs cs)"
    using is_probe_each_tag [of sel env base attr "Element t attribs cs"] by simp
  ultimately show ?case by simp
qed (simp_all add: is_probe_def)

lemma count_body_each_tag:
  "count_nodes is_body (each_tag sel f n) = count_nodes is_body n"
proof (induction n)
  case (Element t attribs cs)
  have "sum_list (map (count_nodes is_body \<circ> each_tag sel f) cs) =
        sum_list (map (count_nodes is_body) cs)"
    by (rule arg_cong [where f = sum_list], rule map_cong [OF refl]) (simp add: Element.IH)
  then show ?case by simp
qed simp_all

lemma count_makeAbs:
  "count_doc is_probe (makeAbs env base sel attr doc) = count_doc is_probe doc"
  "count_doc is_body (makeAbs env base sel attr doc) = count_doc is_body doc"
  by (simp_all add: count_doc_def makeAbs_def comp_def count_probe_each_tag count_body_each_tag)

lemma count_absolutize:
  "count_doc is_probe (absolutize env base doc) = count_doc is_probe doc"
  "count_doc is_body (absolutize env base doc) = count_doc is_body doc"
  by (simp_all add: absolutize_def count_makeAbs)

lemma count_probe_injected: "count_doc is_probe injected_nodes = 1"
  by (simp add: count_doc_def injected_nodes_def is_probe_def probe_script_def)

lemma is_probe_append_to:
  "is_probe (append_to (js ''body'') injected_nodes n) = is_probe n"
  by (cases n)
     (auto simp: is_probe_def probe_script_def js_def map_eq_single_Text [OF append_to_Text_iff])

lemma count_probe_append_to:
  "count_nodes is_probe (append_to (js ''body'') injected_nodes n) =
     count_nodes is_probe n + count_nodes is_body n"
proof (induction n)
  case (Element t attribs cs)
  have kids: "sum_list (map (count_nodes is_probe \<circ> append_to (js ''body'') injected_nodes) cs) =
        sum_list (map (count_nodes is_probe) cs) + sum_list (map (count_nodes is_body) cs)"
    using Element.IH by (induction cs) auto
  have self: "is_probe (Element t attribs (map (append_to (js ''body'') injected_nodes) cs @
           (if t = (js ''body'') then injected_nodes else []))) = is_probe (Element t attribs cs)"
    using is_probe_append_to [of "Element t attribs cs"] by simp
  have inj: "sum_list (map (count_nodes is_probe) injected_nodes) = 1"
    using count_probe_injected by (simp add: count_doc_def)
  show ?case
    using kids self inj by simp
qed (simp_all add: is_probe_def)

lemma append_to_no_body:
  "count_nodes is_body n = 0 \<Longrightarrow> append_to (js ''body'') content n = n"
proof (induction n)
  case (Element t attribs cs)
  then have "t \<noteq> (js ''body'')" and "\<forall>c \<in> set cs. count_nodes is_body c = 0"
    by (auto split: if_splits)
  with Element.IH have "map (append_to (js ''body'') content) cs = cs"
    by (simp add: map_idI)
  with \<open>t \<noteq> (js ''body'')\<close> show ?case by simp
qed simp_all

lemma probe_count:
  "count_doc is_probe (rewrite env base doc) = count_doc is_probe doc + count_doc is_body doc"
proof -
  have "\<And>d. count_doc is_probe (append_sel (js ''body'') injected_nodes d) =
          count_doc is_probe d + count_doc is_body d"
  proof -
    fix d show "count_doc is_probe (append_sel (js ''body'') injected_nodes d) =
          count_doc is_probe d + count_doc is_body d"
      by (induction d) (simp_all add: count_doc_def append_sel_def count_probe_append_to)
  qed
  then show ?thesis by (simp add: rewrite_def count_absolutize)
qed

lemma rewrite_no_body:
  assumes "count_doc is_body doc = 0"
  shows "rewrite env base doc = absolutize env base doc"
proof -
  have "count_doc is_body (absolutize env base doc) = 0"
    using assms by (simp add: count_absolutize)
  then have "\<forall>n \<in> set (absolutize env base doc). count_nodes is_body n = 0"
    by (simp add: count_doc_def)
  then show ?thesis
    by (simp add: rewrite_def append_sel_def append_to_no_body map_idI)
qed


text \<open>
  C6. For the parse tree of any input, the rewritten tree has as many more script blocks
  equal to the probe script as the tree has \<open>body\<close> elements: exactly one more when there
  is one \<open>body\<close> element, and when there is none the append step changes nothing, so no
  block is added and the rewriter still returns its tree.
\<close>

theorem one_probe_per_body:
  "count_doc is_probe (rewrite env base doc) = count_doc is_probe doc + count_doc is_body doc \<and>
   (count_doc is_body doc = 1 \<longrightarrow>
      count_doc is_probe (rewrite env base doc) = count_doc is_probe doc + 1) \<and>
   (count_doc is_body doc = 0 \<longrightarrow>
      rewrite env base doc = absolutize env base doc \<and>
      count_doc is_probe (rewrite env base doc) = count_doc is_probe doc)"
  by (simp add: probe_count rewrite_no_body count_absolutize)


theorem one_probe_per_body_witness:
  "count_doc is_body sample_tree = 1 \<and>
   count_doc is_probe sample_tree = 0 \<and>
   count_doc is_probe (rewrite (sample_env []) page_url sample_tree) = 1 \<and>
   count_doc is_body frameset_tree = 0 \<and>
   rewrite (sample_env []) page_url frameset_tree = frameset_tree \<and>
   count_doc is_probe (rewrite (sample_env []) page_url frameset_tree) = 0"
proof -
  have b1: "count_doc is_body sample_tree = 1"
    by (simp add: count_doc_def sample_tree_def js_def)
  have p0: "count_doc is_probe sample_tree = 0"
    by (simp add: count_doc_def sample_tree_def is_probe_def probe_script_def js_def)
  have b0: "count_doc is_body frameset_tree = 0"
    by (simp add: count_doc_def frameset_tree_def js_def)
  have q0: "count_doc is_probe frameset_tree = 0"
    by (simp add: count_doc_def frameset_tree_def is_probe_def probe_script_def js_def)
  have abs0: "absolutize (sample_env []) page_url frameset_tree = frameset_tree"
    by (simp add: frameset_tree_def absolutize_def makeAbs_def js_def)
  from one_probe_per_body [of "sample_env []" page_url sample_tree] b1 p0
  have 1: "count_doc is_probe (rewrite (sample_env []) page_url sample_tree) = 1"
    by simp
  from one_probe_per_body [of "sample_env []" page_url frameset_tree] b0 q0 abs0
  have 2: "rewrite (sample_env []) page_url frameset_tree = frameset_tree"
    and 3: "count_doc is_probe (rewrite (sample_env []) page_url frameset_tree) = 0"
    by simp_all
  from b1 p0 1 b0 2 3 show ?thesis by blast
qed

section \<open>The attribute step\<close>

lemma canonicalize_eq_iff:
  "canonicalize c = canonicalize d \<longleftrightarrow>
     c = d \<or> (c + 32 = d \<and> 65 \<le> c \<and> c \<le> 90) \<or> (d + 32 = c \<and> 65 \<le> d \<and> d \<le> 90)"
  by (auto simp: canonicalize_def split: if_splits)

lemma matchesCI_iff: "matchesCI p v \<longleftrightarrow> begins_ci v p"
  by (induction p v rule: matchesCI.induct) (auto simp: begins_ci_def)

lemma skip_regex_iff: "v = [] \<or> skip_regex v \<longleftrightarrow> spec_skip v"
  by (simp add: skip_regex_def spec_skip_def matchesCI_iff)

lemma rewrite_attr_spec:
  "rewrite_attr env base attr attribs =
     (case map_of attribs attr of
        None \<Rightarrow> attribs
      | Some v \<Rightarrow> AList.update attr (spec_value env base v) attribs)"
proof (cases "map_of attribs attr")
  case None
  then show ?thesis by (simp add: rewrite_attr_def)
next
  case (Some v)
  then have same: "AList.update attr v attribs = attribs"
    by (rule update_triv)
  show ?thesis
  proof (cases "spec_skip v")
    case True
    with Some same show ?thesis
      using skip_regex_iff [of v] by (auto simp: rewrite_attr_def spec_value_def)
  next
    case False
    with Some same show ?thesis
      using skip_regex_iff [of v]
      by (auto simp: rewrite_attr_def spec_value_def split: option.splits)
  qed
qed

lemma each_tag_map_attribs:
  "each_tag sel f n = map_attribs (\<lambda>t attribs. if t = sel then f attribs else attribs) n"
  by (induction n) simp_all

lemma map_attribs_comp:
  "map_attribs F (map_attribs G n) = map_attribs (\<lambda>t attribs. F t (G t attribs)) n"
  by (induction n) simp_all

lemma absolutize_refines:
  "absolutize env base doc = map (map_attribs (spec_element env base)) doc"
proof -
  have elem: "\<And>t attribs.
     (let p = (\<lambda>sel attr x. if t = sel then rewrite_attr env base attr x else x) in
      p (js ''source'') (js ''src'') (p (js ''video'') (js ''src'') (p (js ''link'') (js ''href'') (p (js ''script'') (js ''src'')
        (p (js ''img'') (js ''src'') (p (js ''a'') (js ''href'') attribs)))))) = spec_element env base t attribs"
    by (simp add: spec_element_def spec_classes_def rewrite_attr_spec js_def)
  show ?thesis
    using elem
    by (simp add: absolutize_def makeAbs_def each_tag_map_attribs map_attribs_comp comp_def Let_def)
qed

lemma spec_value_fixed:
  assumes "\<forall>v a. url_resolve env v base = Some a \<longrightarrow> url_resolve env a base = Some a"
  shows "spec_value env base (spec_value env base v) = spec_value env base v"
proof (cases "spec_skip v")
  case True
  then show ?thesis by (simp add: spec_value_def)
next
  case False
  show ?thesis
  proof (cases "url_resolve env v base")
    case None
    with False show ?thesis by (simp add: spec_value_def)
  next
    case (Some a)
    with assms have "url_resolve env a base = Some a" by blast
    with False Some show ?thesis by (simp add: spec_value_def)
  qed
qed

lemma spec_element_fixed:
  assumes "\<forall>v a. url_resolve env v base = Some a \<longrightarrow> url_resolve env a base = Some a"
  shows "spec_element env base t (spec_element env base t attribs) = spec_element env base t attribs"
  by (simp add: spec_element_def update_conv' spec_value_fixed [OF assms] split: option.splits)

text \<open>
  C7. The six calls of \<open>makeAbs\<close> act on every element of the document, and on each
  as the specification says. For an element of a supported class: when its attribute is
  absent, empty, or begins (letters compared without case) with \<open>data:\<close>, \<open>mailto:\<close>,
  \<open>javascript:\<close> or \<open>#\<close>, the element is left as it is; otherwise the value is replaced
  by its resolution against the base, and when the resolution fails the element is left
  as it is. Elements of other tags are untouched. Whatever the resolver does, a request
  that passed the guard and fetched an HTML page is answered with status 200.
\<close>

theorem absolutize_per_element:
  "absolutize env base doc = map (map_attribs (spec_element env base)) doc \<and>
   (\<forall>(tag, attr) \<in> set spec_classes. \<forall>attribs.
      (map_of attribs attr = None \<longrightarrow> spec_element env base tag attribs = attribs) \<and>
      (\<forall>v. map_of attribs attr = Some v \<longrightarrow>
         (spec_skip v \<longrightarrow> spec_element env base tag attribs = attribs) \<and>
         (\<not> spec_skip v \<longrightarrow>
            (\<forall>a. url_resolve env v base = Some a \<longrightarrow>
               spec_element env base tag attribs = AList.update attr a attribs) \<and>
            (url_resolve env v base = None \<longrightarrow>
               spec_element env base tag attribs = attribs)))) \<and>
   (\<forall>tag attribs. tag \<notin> fst ` set spec_classes \<longrightarrow> spec_element env base tag attribs = attribs) \<and>
   (\<forall>target r txt.
      target \<noteq> [] \<and> url_parse env target = Some base \<and> \<not> proxy_forbidden (hostname base) \<and>
      fetch env (proxy_request target) = Some r \<and> origin_text r = Some txt \<and>
      str_includes (or_default (headers_get r (js ''content-type'')) []) (js ''text/html'') \<longrightarrow>
      status (snd (proxy_handler env (Some target))) = 200)"
proof (intro conjI)
  show "absolutize env base doc = map (map_attribs (spec_element env base)) doc"
    by (rule absolutize_refines)
  show "\<forall>(tag, attr) \<in> set spec_classes. \<forall>attribs.
      (map_of attribs attr = None \<longrightarrow> spec_element env base tag attribs = attribs) \<and>
      (\<forall>v. map_of attribs attr = Some v \<longrightarrow>
         (spec_skip v \<longrightarrow> spec_element env base tag attribs = attribs) \<and>
         (\<not> spec_skip v \<longrightarrow>
            (\<forall>a. url_resolve env v base = Some a \<longrightarrow>
               spec_element env base tag attribs = AList.update attr a attribs) \<and>
            (url_resolve env v base = None \<longrightarrow>
               spec_element env base tag attribs = attribs)))"
    by (simp add: spec_classes_def spec_element_def spec_value_def update_triv js_def)
  show "\<forall>tag attribs. tag \<notin> fst ` set spec_classes \<longrightarrow> spec_element env base tag attribs = attribs"
  proof (intro allI impI)
    fix tag attribs
    assume "tag \<notin> fst ` set spec_classes"
    then have "map_of spec_classes tag = None"
      by (simp add: map_of_eq_None_iff)
    then show "spec_element env base tag attribs = attribs"
      by (simp add: spec_element_def)
  qed
  show "\<forall>target r txt.
      target \<noteq> [] \<and> url_parse env target = Some base \<and> \<not> proxy_forbidden (hostname base) \<and>
      fetch env (proxy_request target) = Some r \<and> origin_text r = Some txt \<and>
      str_includes (or_default (headers_get r (js ''content-type'')) []) (js ''text/html'') \<longrightarrow>
      status (snd (proxy_handler env (Some target))) = 200"
    by (simp add: proxy_handler_def proxy_respond_def header_defs js_def Let_def)
qed

theorem absolutize_per_element_witness:
  "absolutize (sample_env []) page_url links_tree =
     [Element (js ''a'') [(js ''href'', js ''JavaScript:void(0)'')] [],
      Element (js ''img'') [(js ''alt'', js ''logo''), (js ''src'', js ''http://[bad'')] [],
      Element (js ''a'') [(js ''name'', js ''top'')] [],
      Element (js ''link'') [(js ''href'', js '''')] [],
      Element (js ''div'') [(js ''href'', js ''/x.mp4'')] [],
      Element (js ''a'') [(js ''href'', js ''https://example.com/x.mp4'')] [Text (js ''x'')]] \<and>
   status (snd (proxy_handler (sample_env [(js ''content-type'', js ''text/html'')])
       (Some (js ''https://example.com/page.html'')))) = 200"
proof -
  have stat: "status (snd (proxy_handler (sample_env [(js ''content-type'', js ''text/html'')])
       (Some (js ''https://example.com/page.html'')))) = 200"
    using absolutize_per_element [of "sample_env [(js ''content-type'', js ''text/html'')]" page_url "[]"]
    by (simp add: sample_defs page_url_def handler_defs header_defs proxy_respond_def
        or_default_def Let_def)
  have "absolutize (sample_env []) page_url links_tree =
      map (map_attribs (spec_element (sample_env []) page_url)) links_tree"
    using absolutize_per_element [of "sample_env []" page_url links_tree] by blast
  also have "\<dots> =
     [Element (js ''a'') [(js ''href'', js ''JavaScript:void(0)'')] [],
      Element (js ''img'') [(js ''alt'', js ''logo''), (js ''src'', js ''http://[bad'')] [],
      Element (js ''a'') [(js ''name'', js ''top'')] [],
      Element (js ''link'') [(js ''href'', js '''')] [],
      Element (js ''div'') [(js ''href'', js ''/x.mp4'')] [],
      Element (js ''a'') [(js ''href'', js ''https://example.com/x.mp4'')] [Text (js ''x'')]]"
    by (simp add: links_tree_def spec_element_def spec_classes_def spec_value_def spec_skip_def
        begins_ci_def canonicalize_def sample_env_def sample_resolved_def page_url_def js_def)
  finally show ?thesis using stat by simp
qed

section \<open>Rewriting twice\<close>

text \<open>
  C8 (as stated, false). \<open>http://example.com\<close> is an absolute URL, and resolving it yields
  \<open>http://example.com/\<close>: the attribute pass changes the value.
\<close>

theorem unserialised_absolute_url_changed:
  "url_resolve (sample_env []) (js ''http://example.com'') page_url = Some (js ''http://example.com/'') \<and>
   (js ''http://example.com/'') \<noteq> (js ''http://example.com'') \<and>
   absolutize (sample_env []) page_url [Element (js ''a'') [(js ''href'', js ''http://example.com'')] []] =
     [Element (js ''a'') [(js ''href'', js ''http://example.com/'')] []]"
  by (simp add: sample_env_def sample_resolved_def page_url_def rewrite_defs)

text \<open>
  C8 (amended). A value that the resolver maps to itself is left unchanged. When every
  value the resolver returns against the base is such a fixed point, applying the
  attribute pass twice with that base equals applying it once.
\<close>

theorem absolutize_idempotent:
  assumes "\<forall>v a. url_resolve env v base = Some a \<longrightarrow> url_resolve env a base = Some a"
  shows "absolutize env base (absolutize env base doc) = absolutize env base doc \<and>
         (\<forall>attr attribs v. map_of attribs attr = Some v \<and> url_resolve env v base = Some v \<longrightarrow>
            rewrite_attr env base attr attribs = attribs)"
proof
  show "absolutize env base (absolutize env base doc) = absolutize env base doc"
    by (simp add: absolutize_refines map_attribs_comp comp_def spec_element_fixed [OF assms])
  show "\<forall>attr attribs v. map_of attribs attr = Some v \<and> url_resolve env v base = Some v \<longrightarrow>
            rewrite_attr env base attr attribs = attribs"
    by (simp add: rewrite_attr_def update_triv)
qed


theorem absolutize_idempotent_witness:
  "absolutize (sample_env []) page_url (absolutize (sample_env []) page_url links_tree) =
     absolutize (sample_env []) page_url links_tree \<and>
   rewrite_attr (sample_env []) page_url (js ''href'') [(js ''href'', js ''https://example.com/x.mp4'')] =
     [(js ''href'', js ''https://example.com/x.mp4'')]"
proof -
  have fixed: "\<forall>v a. url_resolve (sample_env []) v page_url = Some a \<longrightarrow>
      url_resolve (sample_env []) a page_url = Some a"
    by (auto simp: sample_env_def sample_resolved_def page_url_def js_def split: if_splits)
  have self: "map_of [(js ''href'', js ''https://example.com/x.mp4'')] (js ''href'') = Some (js ''https://example.com/x.mp4'') \<and>
      url_resolve (sample_env []) (js ''https://example.com/x.mp4'') page_url = Some (js ''https://example.com/x.mp4'')"
    by (simp add: sample_env_def sample_resolved_def page_url_def js_def)
  from absolutize_idempotent [OF fixed, of links_tree] self show ?thesis by blast
qed

end
